theory Spec2Isabelle
  imports Main "HOL-Library.Sublist"
begin

section \<open>Conversation data\<close>

text \<open>
  The agent of \<^verbatim>\<open>src/agents/react_agent.py\<close> works on the message classes of its
  chat library. A tool call is a name, an argument mapping and a call identifier; a
  message is one of four classes. Only an assistant (AI) message has the attribute
  \<^verbatim>\<open>tool_calls\<close>; a tool message carries the identifier of the call it answers.
  Python text is a list of characters.
\<close>

datatype ToolCall = ToolCall (call_name: string) (call_args: "(string \<times> string) list") (call_id: string)

datatype BaseMessage =
    SystemMessage string
  | HumanMessage string
  | AIMessage string "ToolCall list"
  | ToolMessage string string string

fun content :: "BaseMessage \<Rightarrow> string" where
  "content (SystemMessage c) = c"
| "content (HumanMessage c) = c"
| "content (AIMessage c tcs) = c"
| "content (ToolMessage c nm cid) = c"

text \<open>\<^verbatim>\<open>hasattr(m, "tool_calls")\<close> with the attribute's value: \<open>None\<close> when the class has no such attribute.\<close>

fun tool_calls :: "BaseMessage \<Rightarrow> ToolCall list option" where
  "tool_calls (AIMessage c tcs) = Some tcs"
| "tool_calls m = None"

fun isinstance_SystemMessage :: "BaseMessage \<Rightarrow> bool" where
  "isinstance_SystemMessage (SystemMessage c) = True"
| "isinstance_SystemMessage m = False"

text \<open>The state schema \<^verbatim>\<open>AgentState\<close>: one field, the message log.\<close>

record AgentState =
  messages :: "BaseMessage list"

text \<open>
  What a run of the agent can raise: the index error of \<^verbatim>\<open>messages[-1]\<close> on an empty
  log, a failure of the model call (with its message), and the recursion error of the
  graph engine when its step budget is used up.
\<close>

datatype error = IndexError | ModelCallError string | GraphRecursionError

section \<open>The agent\<close>

text \<open>
  \<^verbatim>\<open>ReActAgent.__init__\<close> stores the tools, the system prompt and the model with the
  tools bound. The model is an external collaborator: a function from the input
  conversation to either a failure or the assistant's reply (text and requested tool
  calls), which the agent node wraps as one AI message. A tool is a name with a function
  from the argument mapping to the output text.
\<close>

type_synonym tool = "string \<times> ((string \<times> string) list \<Rightarrow> string)"

record ReActAgent =
  tools :: "tool list"
  system_prompt :: string
  llm_with_tools :: "BaseMessage list \<Rightarrow> error + (string \<times> ToolCall list)"

text \<open>
  Lines 138-142 of \<^verbatim>\<open>_agent_node\<close>: the conversation handed to the model. The system
  message is put in front when the log is empty or does not start with one.
\<close>

definition model_input :: "ReActAgent \<Rightarrow> AgentState \<Rightarrow> BaseMessage list" where
  "model_input ag state =
     (let msgs = messages state in
      if msgs = [] \<or> \<not> isinstance_SystemMessage (hd msgs)
      then [SystemMessage (system_prompt ag)] @ msgs
      else msgs)"

text \<open>\<^verbatim>\<open>_agent_node\<close>: call the model, return the update \<^verbatim>\<open>{"messages": [response]}\<close>.\<close>

definition agent_node :: "ReActAgent \<Rightarrow> AgentState \<Rightarrow> error + BaseMessage list" where
  "agent_node ag state =
     (case llm_with_tools ag (model_input ag state) of
        Inl e \<Rightarrow> Inl e
      | Inr (c, tcs) \<Rightarrow> Inr [AIMessage c tcs])"

text \<open>\<^verbatim>\<open>_should_continue\<close>: the label of the conditional edge, read off the last message.\<close>

definition should_continue :: "AgentState \<Rightarrow> error + string" where
  "should_continue state =
     (if messages state = [] then Inl IndexError
      else let last_message = last (messages state) in
        (case tool_calls last_message of
           Some tcs \<Rightarrow> if tcs \<noteq> [] then Inr ''continue'' else Inr ''end''
         | None \<Rightarrow> Inr ''end''))"

section \<open>The graph\<close>

text \<open>
  The reducer \<^verbatim>\<open>add_messages\<close>, the prebuilt tool node and the executor of the compiled
  graph belong to the graph library, which is not part of the repository. They are
  modelled as the spec describes them; the repository's own part, the node callbacks,
  the predicate and the wiring of \<^verbatim>\<open>_build_graph\<close>, is modelled from its code.
\<close>

text \<open>
  Modelled from the spec: the reducer \<^verbatim>\<open>add_messages\<close> of the graph library. The spec
  has the conversation as an append-only log: an update is appended to the log.
\<close>

definition add_messages :: "AgentState \<Rightarrow> BaseMessage list \<Rightarrow> AgentState" where
  "add_messages state update = state\<lparr>messages := messages state @ update\<rparr>"

text \<open>
  Modelled from the spec: the prebuilt \<^verbatim>\<open>ToolNode\<close> of the graph library. The acting step
  runs the calls of the latest assistant message in the order they were produced and
  gives one tool result per call, carrying the call's identifier; an unknown tool name
  gives a tool result with an error text instead of a failure.
\<close>

definition run_tool :: "tool list \<Rightarrow> ToolCall \<Rightarrow> BaseMessage" where
  "run_tool ts tc =
     (case map_of ts (call_name tc) of
        None \<Rightarrow> ToolMessage (''Error: '' @ call_name tc @ '' is not a valid tool'') (call_name tc) (call_id tc)
      | Some f \<Rightarrow> ToolMessage (f (call_args tc)) (call_name tc) (call_id tc))"

definition ToolNode :: "tool list \<Rightarrow> AgentState \<Rightarrow> error + BaseMessage list" where
  "ToolNode ts state =
     (if messages state = [] then Inl IndexError
      else case tool_calls (last (messages state)) of
             None \<Rightarrow> Inr []
           | Some tcs \<Rightarrow> Inr (map (run_tool ts) tcs))"

text \<open>
  \<^verbatim>\<open>_build_graph\<close>: two nodes, entry point \<^verbatim>\<open>agent\<close>, the conditional edge from
  \<^verbatim>\<open>agent\<close> (\<^verbatim>\<open>continue\<close> to \<^verbatim>\<open>tools\<close>, \<^verbatim>\<open>end\<close> to the end of the graph) and the edge from
  \<^verbatim>\<open>tools\<close> back to \<^verbatim>\<open>agent\<close>. No limit of the repository's configuration is passed
  to the graph.
\<close>

datatype node = agent | tools_node

datatype target = Goto node | END

definition conditional_edges :: "string \<Rightarrow> target" where
  "conditional_edges label = (if label = ''continue'' then Goto tools_node else END)"

fun node_name :: "node \<Rightarrow> string" where
  "node_name agent = ''agent''"
| "node_name tools_node = ''tools''"

text \<open>One node execution: the node's update and where the graph's edges lead next.\<close>

fun step_node :: "ReActAgent \<Rightarrow> node \<Rightarrow> AgentState \<Rightarrow> error + (BaseMessage list \<times> target)" where
  "step_node ag agent state =
     (case agent_node ag state of
        Inl e \<Rightarrow> Inl e
      | Inr update \<Rightarrow>
          (case should_continue (add_messages state update) of
             Inl e \<Rightarrow> Inl e
           | Inr label \<Rightarrow> Inr (update, conditional_edges label)))"
| "step_node ag tools_node state =
     (case ToolNode (tools ag) state of
        Inl e \<Rightarrow> Inl e
      | Inr update \<Rightarrow> Inr (update, Goto agent))"

text \<open>
  Modelled from the spec: the executor of the compiled graph, of the graph library. It
  runs one node after the other along the edges, each node execution completing before
  the next begins, and has a recursion-depth guard that is configuration of the
  library: \<open>limit\<close>, the number of node executions it allows before it raises its
  recursion error. A run from a node gives the list of steps (node name and update,
  what \<^verbatim>\<open>graph.stream\<close> yields) and how the run ends, with the final state or with
  the error raised.
\<close>

type_synonym step = "string \<times> BaseMessage list"

fun graph_run :: "nat \<Rightarrow> ReActAgent \<Rightarrow> node \<Rightarrow> AgentState \<Rightarrow> step list \<times> (error + AgentState)" where
  "graph_run 0 ag nd state = ([], Inl GraphRecursionError)"
| "graph_run (Suc n) ag nd state =
     (case step_node ag nd state of
        Inl e \<Rightarrow> ([], Inl e)
      | Inr (update, tgt) \<Rightarrow>
          (let state' = add_messages state update in
           case tgt of
             END \<Rightarrow> ([(node_name nd, update)], Inr state')
           | Goto nd' \<Rightarrow>
               (let (steps, res) = graph_run n ag nd' state'
                in ((node_name nd, update) # steps, res))))"

definition graph_invoke :: "nat \<Rightarrow> ReActAgent \<Rightarrow> AgentState \<Rightarrow> error + AgentState" where
  "graph_invoke limit ag initial_state = snd (graph_run limit ag agent initial_state)"

definition graph_stream :: "nat \<Rightarrow> ReActAgent \<Rightarrow> AgentState \<Rightarrow> step list \<times> error option" where
  "graph_stream limit ag initial_state =
     (let (steps, res) = graph_run limit ag agent initial_state
      in (steps, case res of Inl e \<Rightarrow> Some e | Inr s \<Rightarrow> None))"

text \<open>\<^verbatim>\<open>ReActAgent.invoke\<close> and \<^verbatim>\<open>ReActAgent.stream\<close>.\<close>

definition invoke :: "nat \<Rightarrow> ReActAgent \<Rightarrow> string \<Rightarrow> error + string" where
  "invoke limit ag query =
     (let initial_state = \<lparr>messages = [HumanMessage query]\<rparr> in
      case graph_invoke limit ag initial_state of
        Inl e \<Rightarrow> Inl e
      | Inr result \<Rightarrow>
          (if messages result = [] then Inl IndexError
           else Inr (content (last (messages result)))))"

definition stream :: "nat \<Rightarrow> ReActAgent \<Rightarrow> string \<Rightarrow> step list \<times> error option" where
  "stream limit ag query = graph_stream limit ag \<lparr>messages = [HumanMessage query]\<rparr>"

text \<open>
  The node entries of the run for a query, counted from 0: which node is entered and
  with which state. Entry 0 is the agent node with the log holding the human message
  alone; the next entry follows when the node execution succeeds and the graph's edge
  leads to a node.
\<close>

fun node_entry :: "ReActAgent \<Rightarrow> string \<Rightarrow> nat \<Rightarrow> (node \<times> AgentState) option" where
  "node_entry ag query 0 = Some (agent, \<lparr>messages = [HumanMessage query]\<rparr>)"
| "node_entry ag query (Suc k) =
     (case node_entry ag query k of
        None \<Rightarrow> None
      | Some (nd, state) \<Rightarrow>
          (case step_node ag nd state of
             Inl e \<Rightarrow> None
           | Inr (update, END) \<Rightarrow> None
           | Inr (update, Goto nd') \<Rightarrow> Some (nd', add_messages state update)))"

section \<open>Configuration\<close>

text \<open>
  \<^verbatim>\<open>config/settings.py\<close>: the dataclass \<^verbatim>\<open>AgentConfig\<close> with its defaults. Neither
  \<^verbatim>\<open>react_agent.py\<close> nor \<^verbatim>\<open>main.py\<close> imports the configuration module, so no function
  of the agent takes a value of this type.
\<close>

record AgentConfig =
  max_iterations :: int
  verbose :: bool
  enable_memory :: bool
  recursion_limit :: int

definition AgentConfig_default :: AgentConfig where
  "AgentConfig_default =
     \<lparr>max_iterations = 5, verbose = True, enable_memory = True, recursion_limit = 25\<rparr>"

text \<open>
  Two scripted model stubs: one always requests a tool; one requests a tool as long as
  the conversation holds no tool result and then answers.
\<close>

fun isinstance_ToolMessage :: "BaseMessage \<Rightarrow> bool" where
  "isinstance_ToolMessage (ToolMessage c nm cid) = True"
| "isinstance_ToolMessage m = False"

definition stub_always_tool :: "BaseMessage list \<Rightarrow> error + (string \<times> ToolCall list)" where
  "stub_always_tool msgs = Inr ([], [ToolCall ''get_current_time'' [] ''call_1''])"

definition stub_one_tool :: "BaseMessage list \<Rightarrow> error + (string \<times> ToolCall list)" where
  "stub_one_tool msgs =
     (if filter isinstance_ToolMessage msgs = []
      then Inr ([], [ToolCall ''add'' [(''a'', ''2''), (''b'', ''2'')] ''call_1''])
      else Inr (''The answer is 4.'', []))"

definition stub_agent :: "(BaseMessage list \<Rightarrow> error + (string \<times> ToolCall list)) \<Rightarrow> ReActAgent" where
  "stub_agent llm =
     \<lparr>tools = [(''add'', \<lambda>args. ''Result: 4.0''),
               (''get_current_time'', \<lambda>args. ''Current date and time: Monday, January 01, 2024 at 09:00 AM'')],
      system_prompt = ''You are a helpful AI assistant.'',
      llm_with_tools = llm\<rparr>"

section \<open>Python text operations\<close>

text \<open>
  The tools use a few methods of Python's \<^verbatim>\<open>str\<close>. Text is a list of 8-bit characters:
  the UTF-8 encoding of the Python string, so an ASCII character is one character and
  no part of the encoding of another one.
\<close>

definition ascii_uppercase :: string where
  "ascii_uppercase = ''ABCDEFGHIJKLMNOPQRSTUVWXYZ''"

definition ascii_lowercase :: string where
  "ascii_lowercase = ''abcdefghijklmnopqrstuvwxyz''"

definition lower_char :: "char \<Rightarrow> char" where
  "lower_char c = (case map_of (zip ascii_uppercase ascii_lowercase) c of Some l \<Rightarrow> l | None \<Rightarrow> c)"

definition upper_char :: "char \<Rightarrow> char" where
  "upper_char c = (case map_of (zip ascii_lowercase ascii_uppercase) c of Some u \<Rightarrow> u | None \<Rightarrow> c)"

definition is_cased :: "char \<Rightarrow> bool" where
  "is_cased c = (c \<in> set ascii_uppercase \<or> c \<in> set ascii_lowercase)"

text \<open>
  Two characters outside ASCII have a lowercase with an ASCII letter in it: the Kelvin
  sign U+212A becomes \<^verbatim>\<open>k\<close>, and the capital I with dot above U+0130 becomes \<^verbatim>\<open>i\<close>
  followed by the combining dot U+0307.
\<close>

definition kelvin_sign :: string where
  "kelvin_sign = [CHR 0xE2, CHR 0x84, CHR 0xAA]"

definition capital_i_with_dot :: string where
  "capital_i_with_dot = [CHR 0xC4, CHR 0xB0]"

definition combining_dot :: string where
  "combining_dot = [CHR 0xCC, CHR 0x87]"

text \<open>
  \<^verbatim>\<open>s.lower()\<close>. The ASCII letters and the two characters above are lowercased; any
  other character outside ASCII is kept where Python may put another character outside
  ASCII. The ASCII characters of the result, and what lies between which of them, are
  as in Python, which is all that a comparison with ASCII text depends on.
\<close>

fun str_lower :: "string \<Rightarrow> string" where
  "str_lower [] = []"
| "str_lower (c # cs) =
     (if take 3 (c # cs) = kelvin_sign then CHR ''k'' # str_lower (drop 2 cs)
      else if take 2 (c # cs) = capital_i_with_dot then CHR ''i'' # combining_dot @ str_lower (drop 1 cs)
      else lower_char c # str_lower cs)"

declare str_lower.simps [simp del]

text \<open>
  \<^verbatim>\<open>s.title()\<close>: a letter that follows a letter is lowercased, any other letter is
  uppercased, everything else is kept. The Kelvin sign is an uppercase letter and its
  own title case. This is Python's result on text of ASCII characters and Kelvin signs.
\<close>

fun title_from :: "bool \<Rightarrow> string \<Rightarrow> string" where
  "title_from previous_is_cased [] = []"
| "title_from previous_is_cased (c # cs) =
     (if take 3 (c # cs) = kelvin_sign
      then (if previous_is_cased then ''k'' else kelvin_sign) @ title_from True (drop 2 cs)
      else if is_cased c
      then (if previous_is_cased then lower_char c else upper_char c) # title_from True cs
      else c # title_from False cs)"

declare title_from.simps [simp del]

definition str_title :: "string \<Rightarrow> string" where
  "str_title s = title_from False s"

text \<open>\<^verbatim>\<open>s.split()\<close>: the words between runs of whitespace.\<close>

definition is_space :: "char \<Rightarrow> bool" where
  "is_space c = (c \<in> set [CHR 0x09, CHR 0x0A, CHR 0x0B, CHR 0x0C, CHR 0x0D,
                            CHR 0x1C, CHR 0x1D, CHR 0x1E, CHR 0x1F, CHR 0x20])"

fun split_from :: "string \<Rightarrow> string \<Rightarrow> string list" where
  "split_from word [] = (if word = [] then [] else [word])"
| "split_from word (c # cs) =
     (if is_space c
      then (if word = [] then split_from [] cs else word # split_from [] cs)
      else split_from (word @ [c]) cs)"

definition str_split :: "string \<Rightarrow> string list" where
  "str_split s = split_from [] s"

text \<open>\<^verbatim>\<open>sep.join(xs)\<close>.\<close>

fun str_join :: "string \<Rightarrow> string list \<Rightarrow> string" where
  "str_join sep [] = []"
| "str_join sep [x] = x"
| "str_join sep (x # y # ys) = x @ sep @ str_join sep (y # ys)"

text \<open>\<^verbatim>\<open>str(n)\<close> for an integer: the decimal digits of its absolute value, with a minus sign when negative.\<close>

definition digit_char :: "nat \<Rightarrow> char" where
  "digit_char d = ''0123456789'' ! d"

function str_digits :: "int \<Rightarrow> string" where
  "str_digits n =
     (if n < 10 then [digit_char (nat n)]
      else str_digits (n div 10) @ [digit_char (nat (n mod 10))])"
  by pat_completeness auto
termination
  by (relation "measure nat") auto

definition str_int :: "int \<Rightarrow> string" where
  "str_int i = (if i < 0 then CHR ''-'' # str_digits (- i) else str_digits i)"

text \<open>
  The format \<^verbatim>\<open>:.1f\<close> applied to the quotient \<open>num / den\<close> of two integers (\<open>den\<close>
  positive): the nearest number with one decimal digit, a tie going to the even digit,
  and the sign kept even when the digits are zero. The quotient is taken exactly; the
  double that Python divides to differs from it by less than the distance to a tie for
  the quotients by 9 used here, which are never ties themselves.
\<close>

definition round_half_even :: "int \<Rightarrow> int \<Rightarrow> int" where
  "round_half_even num den =
     (let q = num div den; r = num mod den in
      if 2 * r < den then q
      else if den < 2 * r then q + 1
      else if even q then q else q + 1)"

definition format_1f :: "int \<Rightarrow> int \<Rightarrow> string" where
  "format_1f num den =
     (let t = round_half_even (10 * \<bar>num\<bar>) den in
      (if num < 0 then ''-'' else []) @ str_digits (t div 10) @ ''.'' @ str_digits (t mod 10))"

text \<open>The degree sign of the tools' texts and the ASCII apostrophe.\<close>

definition degree :: string where
  "degree = [CHR 0xC2, CHR 0xB0]"

definition apostrophe :: string where
  "apostrophe = [CHR 0x27]"

section \<open>The search and weather tools\<close>

text \<open>
  \<^verbatim>\<open>src/tools/search.py\<close>. The knowledge base is a dictionary in insertion order, so an
  association list; its last record has the date of the day the module was loaded in
  its text, which is a parameter here (\<open>today\<close>, as \<^verbatim>\<open>%Y-%m-%d\<close>).
\<close>

record doc =
  doc_title :: string
  doc_content :: string
  doc_url :: string

definition KNOWLEDGE_BASE :: "string \<Rightarrow> (string \<times> doc) list" where
  "KNOWLEDGE_BASE today =
   [(''langgraph'',
     \<lparr>doc_title = ''LangGraph - Build Stateful AI Agents'',
      doc_content = ''LangGraph is a library for building stateful, multi-actor applications with LLMs. ''
        @ ''It extends LangChain with cyclic computational capabilities, enabling complex agent workflows. ''
        @ ''Key features: State management, Conditional edges, Parallel execution, Human-in-the-loop.'',
      doc_url = ''https://langchain-ai.github.io/langgraph/''\<rparr>),
    (''react agent'',
     \<lparr>doc_title = ''ReAct: Synergizing Reasoning and Acting in Language Models'',
      doc_content = ''ReAct (Reasoning + Acting) is a paradigm where LLMs interleave reasoning traces and actions. ''
        @ ''The agent thinks step-by-step (Thought), takes an action (Action), and observes the result (Observation). ''
        @ ''This loop continues until the task is complete.'',
      doc_url = ''https://arxiv.org/abs/2210.03629''\<rparr>),
    (''gemini api'',
     \<lparr>doc_title = ''Google Gemini API Documentation'',
      doc_content = ''Gemini is Google's most capable AI model family. The API provides access to Gemini 1.5 Pro, ''
        @ ''Gemini 1.5 Flash, and other models. Features include multimodal understanding, ''
        @ ''long context windows (up to 2M tokens), and function calling capabilities.'',
      doc_url = ''https://ai.google.dev/docs''\<rparr>),
    (''langchain'',
     \<lparr>doc_title = ''LangChain - Build LLM Applications'',
      doc_content = ''LangChain is a framework for developing applications powered by language models. ''
        @ ''It provides modules for prompts, models, memory, chains, agents, and tools. ''
        @ ''LangChain Expression Language (LCEL) enables easy composition of components.'',
      doc_url = ''https://python.langchain.com/''\<rparr>),
    (''python'',
     \<lparr>doc_title = ''Python Programming Language'',
      doc_content = ''Python is a high-level, general-purpose programming language. ''
        @ ''Current stable version is Python 3.12. Known for readability and extensive libraries. ''
        @ ''Widely used in AI/ML, web development, data science, and automation.'',
      doc_url = ''https://www.python.org/''\<rparr>),
    (''weather'',
     \<lparr>doc_title = ''Current Weather Information'',
      doc_content = ''Weather data as of '' @ today @ '': ''
        @ ''Temperature varies by location. For accurate weather, please specify a city. ''
        @ ''Demo shows: New York - 45'' @ degree @ ''F, London - 50'' @ degree @ ''F, Tokyo - 55''
        @ degree @ ''F, Sydney - 75'' @ degree @ ''F.'',
      doc_url = ''https://weather.example.com/''\<rparr>)]"

text \<open>The test of the loop in \<^verbatim>\<open>web_search\<close>: the key, or one of its words, occurs in the lowercased query.\<close>

definition key_matches :: "string \<Rightarrow> string \<Rightarrow> bool" where
  "key_matches query_lower key =
     (sublist key query_lower \<or> list_ex (\<lambda>word. sublist word query_lower) (str_split key))"

definition search_results :: "string \<Rightarrow> string \<Rightarrow> doc list" where
  "search_results today query =
     map snd (filter (\<lambda>(key, data). key_matches (str_lower query) key) (KNOWLEDGE_BASE today))"

definition format_result :: "nat \<times> doc \<Rightarrow> string" where
  "format_result p =
     (case p of (i, result) \<Rightarrow>
        str_int (int i) @ ''. **'' @ doc_title result @ ''**\<newline>''
        @ ''   '' @ doc_content result @ ''\<newline>''
        @ ''   Source: '' @ doc_url result @ ''\<newline>\<newline>'')"

definition web_search :: "string \<Rightarrow> string \<Rightarrow> string" where
  "web_search today query =
     (let results = search_results today query in
      if results = [] then
        ''Search results for '' @ apostrophe @ query @ apostrophe @ '':\<newline>''
        @ ''No specific results found in demo knowledge base.\<newline>''
        @ ''In production, this would return real web search results.\<newline>''
        @ ''Tip: Try searching for 'LangGraph', 'ReAct agent', 'Gemini API', or 'Python'.''
      else
        ''Search results for '' @ apostrophe @ query @ apostrophe @ '':\<newline>\<newline>''
        @ concat (map format_result (enumerate 1 results)))"

text \<open>\<^verbatim>\<open>get_weather\<close>: the table of six cities, in insertion order.\<close>

record weather =
  temp :: int
  condition :: string
  humidity :: int

definition weather_data :: "(string \<times> weather) list" where
  "weather_data =
    [(''new york'', \<lparr>temp = 45, condition = ''Partly Cloudy'', humidity = 65\<rparr>),
     (''london'', \<lparr>temp = 50, condition = ''Rainy'', humidity = 80\<rparr>),
     (''tokyo'', \<lparr>temp = 55, condition = ''Clear'', humidity = 55\<rparr>),
     (''sydney'', \<lparr>temp = 75, condition = ''Sunny'', humidity = 60\<rparr>),
     (''paris'', \<lparr>temp = 48, condition = ''Overcast'', humidity = 70\<rparr>),
     (''mumbai'', \<lparr>temp = 85, condition = ''Humid'', humidity = 85\<rparr>)]"

definition get_weather :: "string \<Rightarrow> string" where
  "get_weather city =
     (let city_lower = str_lower city in
      case map_of weather_data city_lower of
        Some data \<Rightarrow>
          ''Weather in '' @ str_title city @ '':\<newline>''
          @ ''- Temperature: '' @ str_int (temp data) @ degree @ ''F (''
          @ format_1f ((temp data - 32) * 5) 9 @ degree @ ''C)\<newline>''
          @ ''- Condition: '' @ condition data @ ''\<newline>''
          @ ''- Humidity: '' @ str_int (humidity data) @ ''%''
      | None \<Rightarrow>
          ''Weather data not available for '' @ apostrophe @ city @ apostrophe
          @ ''. Available cities: '' @ str_join '', '' (map fst weather_data))"

section \<open>The command-line driver\<close>

text \<open>
  \<^verbatim>\<open>main.py\<close> drives an agent through its two entry points. What the functions print,
  the timing and the pause between demo queries do not touch the agent and are left
  out; what is kept is the sequence of calls made to the agent, the value returned and
  the error that ends the function when a call raises.
\<close>

datatype agent_call = CallStream string | CallInvoke string

definition demo_queries :: "string list" where
  "demo_queries =
    [''What is 25 multiplied by 4, then add 50?'',
     ''What is LangGraph and how does it work?'',
     ''What is the current date and time?'',
     ''What's the weather like in Tokyo?'',
     ''If I have 3 apples costing $2 each and 5 oranges costing $1.50 each, what's my total cost?'']"

text \<open>
  The body of the loop of \<^verbatim>\<open>run_demo_queries\<close> for one query (lines 69-81): the calls
  made, and the final response printed or the error raised.
\<close>

definition demo_query :: "nat \<Rightarrow> ReActAgent \<Rightarrow> bool \<Rightarrow> string \<Rightarrow> agent_call list \<times> (error + string)" where
  "demo_query limit ag verb query =
     (if verb then
        (case snd (stream limit ag query) of
           Some e \<Rightarrow> ([CallStream query], Inl e)
         | None \<Rightarrow> ([CallStream query], Inr ''See steps above''))
      else
        (case invoke limit ag query of
           Inl e \<Rightarrow> ([CallInvoke query], Inl e)
         | Inr response \<Rightarrow> ([CallInvoke query, CallInvoke query], invoke limit ag query)))"

fun run_queries :: "nat \<Rightarrow> ReActAgent \<Rightarrow> bool \<Rightarrow> string list \<Rightarrow> agent_call list \<times> error option" where
  "run_queries limit ag verb [] = ([], None)"
| "run_queries limit ag verb (query # rest) =
     (case demo_query limit ag verb query of
        (calls, Inl e) \<Rightarrow> (calls, Some e)
      | (calls, Inr final_response) \<Rightarrow>
          (let (calls', res) = run_queries limit ag verb rest in (calls @ calls', res)))"

definition run_demo_queries :: "nat \<Rightarrow> ReActAgent \<Rightarrow> bool \<Rightarrow> agent_call list \<times> error option" where
  "run_demo_queries limit ag verb = run_queries limit ag verb demo_queries"

text \<open>\<^verbatim>\<open>run_single_query\<close> (lines 184-192).\<close>

definition run_single_query :: "nat \<Rightarrow> ReActAgent \<Rightarrow> string \<Rightarrow> bool \<Rightarrow> agent_call list \<times> (error + string)" where
  "run_single_query limit ag query verb =
     (if verb then
        (case snd (stream limit ag query) of
           Some e \<Rightarrow> ([CallStream query], Inl e)
         | None \<Rightarrow> ([CallStream query, CallInvoke query], invoke limit ag query))
      else ([CallInvoke query], invoke limit ag query))"

section \<open>The calculator tool\<close>

text \<open>
  \<^verbatim>\<open>src/tools/calculator.py\<close> hands the expression to Python's \<^verbatim>\<open>eval\<close> with the globals
  \<^verbatim>\<open>{"__builtins__": {}}\<close> and the twelve names of \<^verbatim>\<open>safe_dict\<close> as locals, inside a
  \<^verbatim>\<open>try\<close> whose handler catches \<^verbatim>\<open>Exception\<close>. The values, exceptions and namespaces
  of that evaluation come first.
\<close>

subsection \<open>Values, exceptions, namespaces\<close>

text \<open>
  A float is kept as the text that \<^verbatim>\<open>str\<close> gives for it (only the constants \<^verbatim>\<open>pi\<close> and
  \<^verbatim>\<open>e\<close> occur); a built-in function is kept by its name.
\<close>

datatype py_value =
    PyInt int
  | PyStr string
  | PyFloat string
  | PyBuiltin string
  | PyDict "(string \<times> py_value) list"

text \<open>
  Exception classes. \<^verbatim>\<open>SystemExit\<close>, \<^verbatim>\<open>KeyboardInterrupt\<close> and \<^verbatim>\<open>GeneratorExit\<close> derive
  from \<^verbatim>\<open>BaseException\<close> directly; the others derive from \<^verbatim>\<open>Exception\<close>. An exception
  is its class with the text that \<^verbatim>\<open>str\<close> gives for it.
\<close>

datatype exc_class =
    SyntaxError | NameError | TypeError | ValueError | ZeroDivisionError | OverflowError
  | AttributeError | RecursionError | MemoryError
  | SystemExit | KeyboardInterrupt | GeneratorExit







subsection \<open>Expressions\<close>

text \<open>
  The fragment of Python's expressions that is modelled: decimal integer literals,
  plain string literals, names, calls, the unary operators \<^verbatim>\<open>+ -\<close>, the binary
  operators \<^verbatim>\<open>+ - * / // % **\<close> and parentheses. Every function below returns \<open>None\<close>
  for an input outside the fragment (or one whose result depends on the Python
  version), so \<open>None\<close> never stands for an outcome of the code.
\<close>

datatype token =
    NUMBER int | NAME string | STRING string
  | PLUS | MINUS | STAR | SLASH | DOUBLESLASH | PERCENT | DOUBLESTAR
  | LPAR | RPAR | COMMA

datatype operator = Add | Sub | Mult | Div | FloorDiv | Mod | Pow

datatype unaryop = UAdd | USub

datatype expr =
    Constant py_value
  | Name string
  | UnaryOp unaryop expr
  | BinOp expr operator expr
  | Call expr "expr list"

subsubsection \<open>Tokens\<close>

















subsubsection \<open>Parsing\<close>

text \<open>
  Recursive descent along Python's grammar for the fragment: a primary is an atom with
  call trailers, a power binds tighter than the unary operators on its left, terms and
  sums associate to the left. A parser returns the expression with the tokens left
  over; the test \<open>shorter\<close> on the tokens left over always holds and makes the
  termination argument local.
\<close>

type_synonym 'a parsed = "('a \<times> token list) option"

definition shorter :: "token list \<Rightarrow> token list \<Rightarrow> bool" where
  "shorter rest ts = (length rest < length ts)"

function (sequential)
      parse_atom :: "token list \<Rightarrow> expr parsed"
  and parse_trailers :: "expr \<Rightarrow> token list \<Rightarrow> expr parsed"
  and parse_primary :: "token list \<Rightarrow> expr parsed"
  and parse_power :: "token list \<Rightarrow> expr parsed"
  and parse_factor :: "token list \<Rightarrow> expr parsed"
  and term_rest :: "expr \<Rightarrow> token list \<Rightarrow> expr parsed"
  and parse_term :: "token list \<Rightarrow> expr parsed"
  and arith_rest :: "expr \<Rightarrow> token list \<Rightarrow> expr parsed"
  and parse_arith :: "token list \<Rightarrow> expr parsed"
  and parse_arglist :: "token list \<Rightarrow> (expr list) parsed"
  and parse_args :: "token list \<Rightarrow> (expr list) parsed"
where
  "parse_atom ts =
     (case ts of
        NUMBER n # rest \<Rightarrow> Some (Constant (PyInt n), rest)
      | NAME x # rest \<Rightarrow> Some (Name x, rest)
      | STRING s # rest \<Rightarrow>
          (case rest of STRING s' # rest' \<Rightarrow> None | _ \<Rightarrow> Some (Constant (PyStr s), rest))
      | LPAR # rest \<Rightarrow>
          (case parse_arith rest of
             Some (e, RPAR # rest') \<Rightarrow> Some (e, rest')
           | _ \<Rightarrow> None)
      | _ \<Rightarrow> None)"
| "parse_trailers e ts =
     (case ts of
        LPAR # rest \<Rightarrow>
          (case parse_args rest of
             None \<Rightarrow> None
           | Some (args, rest') \<Rightarrow>
               if shorter rest' ts then parse_trailers (Call e args) rest' else None)
      | _ \<Rightarrow> Some (e, ts))"
| "parse_primary ts =
     (case parse_atom ts of
        None \<Rightarrow> None
      | Some (e, rest) \<Rightarrow> if shorter rest ts then parse_trailers e rest else None)"
| "parse_power ts =
     (case parse_primary ts of
        Some (e, DOUBLESTAR # rest) \<Rightarrow>
          (if shorter rest ts
           then (case parse_factor rest of
                   None \<Rightarrow> None
                 | Some (e', rest') \<Rightarrow> Some (BinOp e Pow e', rest'))
           else None)
      | r \<Rightarrow> r)"
| "parse_factor ts =
     (case ts of
        PLUS # rest \<Rightarrow>
          (case parse_factor rest of None \<Rightarrow> None | Some (e, rest') \<Rightarrow> Some (UnaryOp UAdd e, rest'))
      | MINUS # rest \<Rightarrow>
          (case parse_factor rest of None \<Rightarrow> None | Some (e, rest') \<Rightarrow> Some (UnaryOp USub e, rest'))
      | _ \<Rightarrow> parse_power ts)"
| "term_rest e ts =
     (case (case ts of STAR # rest \<Rightarrow> Some (Mult, rest) | SLASH # rest \<Rightarrow> Some (Div, rest)
                     | DOUBLESLASH # rest \<Rightarrow> Some (FloorDiv, rest) | PERCENT # rest \<Rightarrow> Some (Mod, rest)
                     | _ \<Rightarrow> None) of
        None \<Rightarrow> Some (e, ts)
      | Some (oper, rest) \<Rightarrow>
          (if shorter rest ts
           then (case parse_factor rest of
                   None \<Rightarrow> None
                 | Some (e', rest') \<Rightarrow>
                     if shorter rest' ts then term_rest (BinOp e oper e') rest' else None)
           else None))"
| "parse_term ts =
     (case parse_factor ts of
        None \<Rightarrow> None
      | Some (e, rest) \<Rightarrow> if shorter rest ts then term_rest e rest else None)"
| "arith_rest e ts =
     (case (case ts of PLUS # rest \<Rightarrow> Some (Add, rest) | MINUS # rest \<Rightarrow> Some (Sub, rest)
                     | _ \<Rightarrow> None) of
        None \<Rightarrow> Some (e, ts)
      | Some (oper, rest) \<Rightarrow>
          (if shorter rest ts
           then (case parse_term rest of
                   None \<Rightarrow> None
                 | Some (e', rest') \<Rightarrow>
                     if shorter rest' ts then arith_rest (BinOp e oper e') rest' else None)
           else None))"
| "parse_arith ts =
     (case parse_term ts of
        None \<Rightarrow> None
      | Some (e, rest) \<Rightarrow> if shorter rest ts then arith_rest e rest else None)"
| "parse_arglist ts =
     (case parse_arith ts of
        Some (e, RPAR # rest) \<Rightarrow> Some ([e], rest)
      | Some (e, COMMA # rest) \<Rightarrow>
          (case rest of
             RPAR # rest' \<Rightarrow> Some ([e], rest')
           | _ \<Rightarrow>
               if shorter rest ts
               then (case parse_arglist rest of
                       None \<Rightarrow> None
                     | Some (es, rest') \<Rightarrow> Some (e # es, rest'))
               else None)
      | _ \<Rightarrow> None)"
| "parse_args ts =
     (case ts of
        RPAR # rest \<Rightarrow> Some ([], rest)
      | _ \<Rightarrow> parse_arglist ts)"
  by pat_completeness auto
termination
  by (relation "measures [\<lambda>x. case x of
        Inl (Inl (Inl ts)) \<Rightarrow> length ts
      | Inl (Inl (Inr (e, ts))) \<Rightarrow> length ts
      | Inl (Inr (Inl ts)) \<Rightarrow> length ts
      | Inl (Inr (Inr (Inl ts))) \<Rightarrow> length ts
      | Inl (Inr (Inr (Inr ts))) \<Rightarrow> length ts
      | Inr (Inl (Inl (e, ts))) \<Rightarrow> length ts
      | Inr (Inl (Inr (Inl ts))) \<Rightarrow> length ts
      | Inr (Inl (Inr (Inr (e, ts)))) \<Rightarrow> length ts
      | Inr (Inr (Inl ts)) \<Rightarrow> length ts
      | Inr (Inr (Inr (Inl ts))) \<Rightarrow> length ts
      | Inr (Inr (Inr (Inr ts))) \<Rightarrow> length ts,
      \<lambda>x. case x of
        Inl (Inl (Inl ts)) \<Rightarrow> 1
      | Inl (Inl (Inr (e, ts))) \<Rightarrow> 0
      | Inl (Inr (Inl ts)) \<Rightarrow> 2
      | Inl (Inr (Inr (Inl ts))) \<Rightarrow> 3
      | Inl (Inr (Inr (Inr ts))) \<Rightarrow> 4
      | Inr (Inl (Inl (e, ts))) \<Rightarrow> 0
      | Inr (Inl (Inr (Inl ts))) \<Rightarrow> 5
      | Inr (Inl (Inr (Inr (e, ts)))) \<Rightarrow> 0
      | Inr (Inr (Inl ts)) \<Rightarrow> 6
      | Inr (Inr (Inr (Inl ts))) \<Rightarrow> 7
      | Inr (Inr (Inr (Inr ts))) \<Rightarrow> 8]")
     (auto simp: shorter_def)




subsubsection \<open>Evaluation\<close>









subsection \<open>The tool\<close>





section \<open>The continuation predicate\<close>

text \<open>
  C3. Applied to a conversation state whose latest message is an assistant message, the
  continuation predicate returns the label \<^verbatim>\<open>continue\<close> exactly when that message carries
  one or more tool calls, and \<^verbatim>\<open>end\<close> otherwise. It is a function of the state that
  returns nothing but the label, so it has no effect on the state, and its value depends
  on the latest message only.
\<close>

theorem should_continue_label:
  assumes "messages state \<noteq> []" and "last (messages state) = AIMessage c tcs"
  shows "should_continue state = Inr (if tcs \<noteq> [] then ''continue'' else ''end'')
         \<and> ((should_continue state = Inr ''continue'') = (tcs \<noteq> []))
         \<and> ((should_continue state = Inr ''end'') = (tcs = []))
         \<and> (\<forall>state'. messages state' \<noteq> [] \<and> last (messages state') = last (messages state)
               \<longrightarrow> should_continue state' = should_continue state)"
  using assms by (simp add: should_continue_def)

theorem should_continue_label_witness:
  "should_continue \<lparr>messages = [HumanMessage ''q'', AIMessage [] [ToolCall ''add'' [] ''1'']]\<rparr> = Inr ''continue''
   \<and> should_continue \<lparr>messages = [HumanMessage ''q'', AIMessage ''4'' []]\<rparr> = Inr ''end''"
  using should_continue_label [of "\<lparr>messages = [HumanMessage ''q'', AIMessage [] [ToolCall ''add'' [] ''1'']]\<rparr>" "[]" "[ToolCall ''add'' [] ''1'']"]
        should_continue_label [of "\<lparr>messages = [HumanMessage ''q'', AIMessage ''4'' []]\<rparr>" "''4''" "[]"]
  by simp

section \<open>Properties of the reasoning loop\<close>

text \<open>Neither node writes a system message: the agent node's update is one AI message, the tool node's update is tool messages.\<close>

lemma step_node_no_system:
  "step_node ag nd st = Inr (upd, tgt) \<Longrightarrow> filter isinstance_SystemMessage upd = []"
  by (cases nd) (auto simp: agent_node_def ToolNode_def run_tool_def filter_empty_conv split: sum.splits option.splits if_splits prod.splits)

lemma graph_run_no_system:
  "graph_run n ag nd st = (steps, Inr st') \<Longrightarrow> filter isinstance_SystemMessage (messages st) = []
   \<Longrightarrow> filter isinstance_SystemMessage (messages st') = []"
proof (induction n arbitrary: nd st steps)
  case 0
  then show ?case by simp
next
  case (Suc n)
  show ?case
  proof (cases "step_node ag nd st")
    case (Inl e)
    with Suc.prems show ?thesis by simp
  next
    case (Inr p)
    obtain upd tgt where p: "p = (upd, tgt)" by (cases p)
    have u: "filter isinstance_SystemMessage upd = []"
      using Inr p step_node_no_system by blast
    show ?thesis
    proof (cases tgt)
      case END
      with Suc.prems Inr p u show ?thesis by (auto simp: add_messages_def)
    next
      case (Goto nd')
      obtain steps' res where r: "graph_run n ag nd' (add_messages st upd) = (steps', res)"
        by (cases "graph_run n ag nd' (add_messages st upd)")
      with Suc.prems Inr p Goto have "res = Inr st'" by (simp add: Let_def)
      with r Suc.IH [of nd' "add_messages st upd" steps'] Suc.prems(2) u
      show ?thesis by (simp add: add_messages_def)
    qed
  qed
qed

lemma node_entry_log:
  "node_entry ag q k = Some (nd, st) \<Longrightarrow>
     filter isinstance_SystemMessage (messages st) = [] \<and> messages st \<noteq> [] \<and> hd (messages st) = HumanMessage q"
proof (induction k arbitrary: nd st)
  case 0
  then show ?case by auto
next
  case (Suc k)
  then obtain nd0 st0 upd where e: "node_entry ag q k = Some (nd0, st0)"
    and s: "step_node ag nd0 st0 = Inr (upd, Goto nd)" and st: "st = add_messages st0 upd"
    by (auto split: option.splits sum.splits prod.splits target.splits)
  from Suc.IH [OF e] step_node_no_system [OF s] st show ?case
    by (auto simp: add_messages_def)
qed

lemma graph_run_from_entry:
  "node_entry ag q k = Some (nd, st) \<Longrightarrow>
     \<exists>pre. length pre = k \<and> (\<forall>m. graph_run (k + m) ag agent \<lparr>messages = [HumanMessage q]\<rparr>
        = (pre @ fst (graph_run m ag nd st), snd (graph_run m ag nd st)))"
proof (induction k arbitrary: nd st)
  case 0
  then show ?case by auto
next
  case (Suc k)
  then obtain nd0 st0 upd where e: "node_entry ag q k = Some (nd0, st0)"
    and s: "step_node ag nd0 st0 = Inr (upd, Goto nd)" and st: "st = add_messages st0 upd"
    by (auto split: option.splits sum.splits prod.splits target.splits)
  from Suc.IH [OF e] obtain pre where l: "length pre = k"
    and r: "\<And>m. graph_run (k + m) ag agent \<lparr>messages = [HumanMessage q]\<rparr>
        = (pre @ fst (graph_run m ag nd0 st0), snd (graph_run m ag nd0 st0))" by blast
  have "graph_run (Suc k + m) ag agent \<lparr>messages = [HumanMessage q]\<rparr>
        = ((pre @ [(node_name nd0, upd)]) @ fst (graph_run m ag nd st), snd (graph_run m ag nd st))" for m
    using r [of "Suc m"] s st by (simp add: Let_def split: prod.splits)
  with l show ?case by (intro exI [of _ "pre @ [(node_name nd0, upd)]"]) simp
qed

lemma graph_run_done:
  "graph_run n ag nd st = (steps, Inr st') \<Longrightarrow> node_entry ag q k = Some (nd, st) \<Longrightarrow>
     \<exists>j st0 c. node_entry ag q j = Some (agent, st0) \<and> j < k + n
        \<and> llm_with_tools ag (model_input ag st0) = Inr (c, [])
        \<and> st' = add_messages st0 [AIMessage c []]"
proof (induction n arbitrary: nd st steps k)
  case 0
  then show ?case by simp
next
  case (Suc n)
  show ?case
  proof (cases "step_node ag nd st")
    case (Inl e)
    with Suc.prems show ?thesis by simp
  next
    case (Inr p)
    obtain upd tgt where p: "p = (upd, tgt)" by (cases p)
    show ?thesis
    proof (cases tgt)
      case END
      with Inr p have nd: "nd = agent" by (cases nd) (auto split: sum.splits)
      from Inr p END nd obtain c tcs where l: "llm_with_tools ag (model_input ag st) = Inr (c, tcs)"
        and u: "upd = [AIMessage c tcs]"
        by (auto simp: agent_node_def split: sum.splits prod.splits)
      from Inr p END nd u l have "tcs = []"
        by (auto simp: agent_node_def should_continue_def add_messages_def conditional_edges_def split: sum.splits if_splits)
      with Suc.prems Inr p END nd l u show ?thesis
        by (intro exI [of _ k] exI [of _ st] exI [of _ c]) (auto simp: Let_def)
    next
      case (Goto nd')
      obtain steps' res where r: "graph_run n ag nd' (add_messages st upd) = (steps', res)"
        by (cases "graph_run n ag nd' (add_messages st upd)")
      with Suc.prems Inr p Goto have res: "res = Inr st'" by (simp add: Let_def)
      have e: "node_entry ag q (Suc k) = Some (nd', add_messages st upd)"
        using Suc.prems(2) Inr p Goto by simp
      from Suc.IH [OF r [unfolded res] e] show ?thesis by auto
    qed
  qed
qed

lemma invoke_InrD:
  "invoke limit ag query = Inr answer \<Longrightarrow>
     \<exists>result. graph_invoke limit ag \<lparr>messages = [HumanMessage query]\<rparr> = Inr result
       \<and> answer = content (last (messages result))"
  by (auto simp: invoke_def Let_def split: sum.splits if_splits)

lemma graph_run_final_step:
  "llm_with_tools ag (model_input ag st) = Inr (answer, []) \<Longrightarrow>
     snd (graph_run (Suc m) ag agent st) = Inr (add_messages st [AIMessage answer []])"
  by (simp add: agent_node_def should_continue_def add_messages_def conditional_edges_def)

lemma graph_run_done_from_start:
  assumes r: "graph_run limit ag agent \<lparr>messages = [HumanMessage query]\<rparr> = (steps, Inr result)"
  shows "\<exists>j st0 c. node_entry ag query j = Some (agent, st0) \<and>
    j < limit \<and> llm_with_tools ag (model_input ag st0) = Inr (c, []) \<and>
    result = add_messages st0 [AIMessage c []]"
proof -
  have e0: "node_entry ag query 0 = Some (agent, \<lparr>messages = [HumanMessage query]\<rparr>)" by simp
  from graph_run_done [OF r e0] show ?thesis by simp
qed

lemma graph_run_reaches_entry:
  assumes e: "node_entry ag query k = Some (nd, st)"
  shows "snd (graph_run (k + m) ag agent \<lparr>messages = [HumanMessage query]\<rparr>) = snd (graph_run m ag nd st)"
proof -
  from graph_run_from_entry [OF e] obtain pre where
    "\<forall>m. graph_run (k + m) ag agent \<lparr>messages = [HumanMessage query]\<rparr>
        = (pre @ fst (graph_run m ag nd st), snd (graph_run m ag nd st))"
    by (elim exE conjE)
  then have "graph_run (k + m) ag agent \<lparr>messages = [HumanMessage query]\<rparr>
        = (pre @ fst (graph_run m ag nd st), snd (graph_run m ag nd st))"
    by (rule spec)
  then show ?thesis by (simp only: snd_conv)
qed

lemma invoke_of_graph_invoke:
  "graph_invoke limit ag \<lparr>messages = [HumanMessage query]\<rparr> = Inr (add_messages st [AIMessage answer []])
   \<Longrightarrow> invoke limit ag query = Inr answer"
  by (simp add: invoke_def add_messages_def)

lemma invoke_at_answer:
  assumes e: "node_entry ag query k = Some (agent, st)"
    and l: "llm_with_tools ag (model_input ag st) = Inr (answer, [])" and k: "k < limit"
  shows "invoke limit ag query = Inr answer"
proof -
  from k have "\<exists>m. limit = k + Suc m" by (simp add: less_iff_Suc_add)
  then obtain m where m: "limit = k + Suc m" ..
  have "graph_invoke (k + Suc m) ag \<lparr>messages = [HumanMessage query]\<rparr>
      = snd (graph_run (k + Suc m) ag agent \<lparr>messages = [HumanMessage query]\<rparr>)"
    by (simp only: graph_invoke_def)
  also have "\<dots> = snd (graph_run (Suc m) ag agent st)"
    by (rule graph_run_reaches_entry [OF e])
  also have "\<dots> = Inr (add_messages st [AIMessage answer []])"
    by (rule graph_run_final_step [OF l])
  finally have "invoke (k + Suc m) ag query = Inr answer"
    by (rule invoke_of_graph_invoke)
  then show ?thesis unfolding m .
qed

lemma invoke_answer_origin:
  assumes i: "invoke limit ag query = Inr answer"
  shows "\<exists>k st. k < limit \<and> node_entry ag query k = Some (agent, st)
         \<and> hd (messages st) = HumanMessage query
         \<and> llm_with_tools ag (model_input ag st) = Inr (answer, [])
         \<and> graph_invoke limit ag \<lparr>messages = [HumanMessage query]\<rparr>
              = Inr (add_messages st [AIMessage answer []])"
proof -
  from invoke_InrD [OF i] obtain result
    where g: "graph_invoke limit ag \<lparr>messages = [HumanMessage query]\<rparr> = Inr result"
    and a: "answer = content (last (messages result))" by (elim exE conjE)
  from g obtain steps where r: "graph_run limit ag agent \<lparr>messages = [HumanMessage query]\<rparr> = (steps, Inr result)"
    by (cases "graph_run limit ag agent \<lparr>messages = [HumanMessage query]\<rparr>") (simp add: graph_invoke_def)
  from graph_run_done_from_start [OF r] obtain j st0 c where j: "node_entry ag query j = Some (agent, st0)"
    and jl: "j < limit" and l: "llm_with_tools ag (model_input ag st0) = Inr (c, [])"
    and res: "result = add_messages st0 [AIMessage c []]" by (elim exE conjE)
  from a res have ac: "answer = c" by (simp add: add_messages_def)
  from node_entry_log [OF j] have h: "hd (messages st0) = HumanMessage query" by simp
  from jl j h l g res ac
  have "j < limit \<and> node_entry ag query j = Some (agent, st0)
         \<and> hd (messages st0) = HumanMessage query
         \<and> llm_with_tools ag (model_input ag st0) = Inr (answer, [])
         \<and> graph_invoke limit ag \<lparr>messages = [HumanMessage query]\<rparr>
              = Inr (add_messages st0 [AIMessage answer []])" by simp
  then show ?thesis by (intro exI)
qed

text \<open>Runs of the two scripted stubs.\<close>

lemma stub_one_tool_run:
  "graph_run 3 (stub_agent stub_one_tool) agent \<lparr>messages = [HumanMessage ''What is 2 + 2?'']\<rparr> =
    ([(''agent'', [AIMessage [] [ToolCall ''add'' [(''a'', ''2''), (''b'', ''2'')] ''call_1'']]),
      (''tools'', [ToolMessage ''Result: 4.0'' ''add'' ''call_1'']),
      (''agent'', [AIMessage ''The answer is 4.'' []])],
     Inr \<lparr>messages = [HumanMessage ''What is 2 + 2?'',
            AIMessage [] [ToolCall ''add'' [(''a'', ''2''), (''b'', ''2'')] ''call_1''],
            ToolMessage ''Result: 4.0'' ''add'' ''call_1'',
            AIMessage ''The answer is 4.'' []]\<rparr>)"
  by (simp add: numeral_3_eq_3 stub_agent_def stub_one_tool_def agent_node_def model_input_def
      should_continue_def add_messages_def conditional_edges_def ToolNode_def run_tool_def)

lemma stub_one_tool_entry:
  "node_entry (stub_agent stub_one_tool) ''What is 2 + 2?'' 2 =
     Some (agent, \<lparr>messages = [HumanMessage ''What is 2 + 2?'',
            AIMessage [] [ToolCall ''add'' [(''a'', ''2''), (''b'', ''2'')] ''call_1''],
            ToolMessage ''Result: 4.0'' ''add'' ''call_1'']\<rparr>)"
  by (simp add: numeral_2_eq_2 stub_agent_def stub_one_tool_def agent_node_def model_input_def
      should_continue_def add_messages_def conditional_edges_def ToolNode_def run_tool_def)

lemma stub_always: "\<forall>msgs. \<exists>c tcs. llm_with_tools (stub_agent stub_always_tool) msgs = Inr (c, tcs) \<and> tcs \<noteq> []"
  by (simp add: stub_agent_def stub_always_tool_def)

lemma graph_run_always_tool:
  assumes a: "\<And>msgs. \<exists>c tcs. llm_with_tools ag msgs = Inr (c, tcs) \<and> tcs \<noteq> []"
  shows "messages st \<noteq> [] \<Longrightarrow>
     snd (graph_run n ag nd st) = Inl GraphRecursionError
     \<and> length (fst (graph_run n ag nd st)) = n
     \<and> length (filter (\<lambda>s. fst s = ''agent'') (fst (graph_run n ag nd st)))
         = (case nd of agent \<Rightarrow> (n + 1) div 2 | tools_node \<Rightarrow> n div 2)"
proof (induction n arbitrary: nd st)
  case 0
  then show ?case by (simp split: node.splits)
next
  case (Suc n)
  show ?case
  proof (cases nd)
    case agent
    from a obtain c tcs where l: "llm_with_tools ag (model_input ag st) = Inr (c, tcs)" and t: "tcs \<noteq> []"
      by blast
    then have s: "step_node ag agent st = Inr ([AIMessage c tcs], Goto tools_node)"
      by (simp add: agent_node_def should_continue_def add_messages_def conditional_edges_def)
    have "messages (add_messages st [AIMessage c tcs]) \<noteq> []" by (simp add: add_messages_def)
    from Suc.IH [OF this, of tools_node] s agent show ?thesis
      by (cases "graph_run n ag tools_node (add_messages st [AIMessage c tcs])") (simp add: Let_def del: step_node.simps)
  next
    case tools_node
    from Suc.prems obtain upd where s: "step_node ag tools_node st = Inr (upd, Goto agent)"
      by (cases "tool_calls (last (messages st))") (simp_all add: ToolNode_def)
    have "messages (add_messages st upd) \<noteq> []" using Suc.prems by (simp add: add_messages_def)
    from Suc.IH [OF this, of agent] s tools_node show ?thesis
      by (cases "graph_run n ag agent (add_messages st upd)") (simp add: Let_def del: step_node.simps)
  qed
qed

subsection \<open>The agent node's update and the stored log\<close>

text \<open>
  C10. Every call of the agent node that returns gives a state update of exactly one
  message, the AI message wrapping the model's reply, and the reducer appends it to the
  log. The system message is part of the model's input only: the log that the graph
  returns for \<^verbatim>\<open>invoke\<close> (whatever the step budget and the query) contains no system
  message.
\<close>

theorem agent_node_update_single:
  "(\<forall>update. agent_node ag state = Inr update \<longrightarrow>
       (\<exists>c tcs. llm_with_tools ag (model_input ag state) = Inr (c, tcs) \<and> update = [AIMessage c tcs])
       \<and> length update = 1
       \<and> messages (add_messages state update) = messages state @ update)
   \<and> (\<forall>limit query result. graph_invoke limit ag \<lparr>messages = [HumanMessage query]\<rparr> = Inr result \<longrightarrow>
         filter isinstance_SystemMessage (messages result) = [])"
proof (intro conjI allI impI)
  fix update assume "agent_node ag state = Inr update"
  then show "\<exists>c tcs. llm_with_tools ag (model_input ag state) = Inr (c, tcs) \<and> update = [AIMessage c tcs]"
    and "length update = 1"
    by (auto simp: agent_node_def split: sum.splits prod.splits)
next
  fix update
  show "messages (add_messages state update) = messages state @ update"
    by (simp add: add_messages_def)
next
  fix limit query result
  assume "graph_invoke limit ag \<lparr>messages = [HumanMessage query]\<rparr> = Inr result"
  then obtain steps where "graph_run limit ag agent \<lparr>messages = [HumanMessage query]\<rparr> = (steps, Inr result)"
    by (cases "graph_run limit ag agent \<lparr>messages = [HumanMessage query]\<rparr>") (simp add: graph_invoke_def)
  from graph_run_no_system [OF this] show "filter isinstance_SystemMessage (messages result) = []"
    by simp
qed

theorem agent_node_update_single_witness:
  "agent_node (stub_agent stub_one_tool) \<lparr>messages = [HumanMessage ''What is 2 + 2?'']\<rparr>
     = Inr [AIMessage [] [ToolCall ''add'' [(''a'', ''2''), (''b'', ''2'')] ''call_1'']]
   \<and> graph_invoke 3 (stub_agent stub_one_tool) \<lparr>messages = [HumanMessage ''What is 2 + 2?'']\<rparr>
     = Inr \<lparr>messages = [HumanMessage ''What is 2 + 2?'',
            AIMessage [] [ToolCall ''add'' [(''a'', ''2''), (''b'', ''2'')] ''call_1''],
            ToolMessage ''Result: 4.0'' ''add'' ''call_1'',
            AIMessage ''The answer is 4.'' []]\<rparr>
   \<and> filter isinstance_SystemMessage [HumanMessage ''What is 2 + 2?'',
            AIMessage [] [ToolCall ''add'' [(''a'', ''2''), (''b'', ''2'')] ''call_1''],
            ToolMessage ''Result: 4.0'' ''add'' ''call_1'',
            AIMessage ''The answer is 4.'' []] = []"
proof -
  have a: "agent_node (stub_agent stub_one_tool) \<lparr>messages = [HumanMessage ''What is 2 + 2?'']\<rparr>
     = Inr [AIMessage [] [ToolCall ''add'' [(''a'', ''2''), (''b'', ''2'')] ''call_1'']]"
    by (simp add: agent_node_def stub_agent_def stub_one_tool_def model_input_def)
  have g: "graph_invoke 3 (stub_agent stub_one_tool) \<lparr>messages = [HumanMessage ''What is 2 + 2?'']\<rparr>
     = Inr \<lparr>messages = [HumanMessage ''What is 2 + 2?'',
            AIMessage [] [ToolCall ''add'' [(''a'', ''2''), (''b'', ''2'')] ''call_1''],
            ToolMessage ''Result: 4.0'' ''add'' ''call_1'',
            AIMessage ''The answer is 4.'' []]\<rparr>"
    using stub_one_tool_run by (simp add: graph_invoke_def)
  from agent_node_update_single [of "stub_agent stub_one_tool" "\<lparr>messages = [HumanMessage ''What is 2 + 2?'']\<rparr>",
      THEN conjunct2, rule_format, OF g] a g
  show ?thesis by simp
qed

subsection \<open>Injection of the system message\<close>

text \<open>
  C4. On every entry to the reasoning step the system message is put in front of the
  model's input exactly when the log does not already start with one. At every entry of
  the agent node in the run for a query, the model's input is the system message
  followed by the log, and it holds exactly one system message (never a duplicate); the
  log itself holds none, so over the whole conversation the log gets a system message
  prepended at most once (in fact never: the injection is into the input of each step).
\<close>

theorem system_message_injected_once:
  "model_input ag state =
      (if messages state \<noteq> [] \<and> isinstance_SystemMessage (hd (messages state))
       then messages state
       else SystemMessage (system_prompt ag) # messages state)
   \<and> (\<forall>query k st. node_entry ag query k = Some (agent, st) \<longrightarrow>
         model_input ag st = SystemMessage (system_prompt ag) # messages st
       \<and> filter isinstance_SystemMessage (model_input ag st) = [SystemMessage (system_prompt ag)]
       \<and> filter isinstance_SystemMessage (messages st) = [])"
proof (intro conjI allI impI)
  show "model_input ag state =
      (if messages state \<noteq> [] \<and> isinstance_SystemMessage (hd (messages state))
       then messages state
       else SystemMessage (system_prompt ag) # messages state)"
    by (simp add: model_input_def Let_def)
next
  fix query k st
  assume e: "node_entry ag query k = Some (agent, st)"
  from node_entry_log [OF e]
  have n: "filter isinstance_SystemMessage (messages st) = []"
    and h: "messages st \<noteq> []" "hd (messages st) = HumanMessage query" by auto
  from h show i: "model_input ag st = SystemMessage (system_prompt ag) # messages st"
    by (simp add: model_input_def Let_def)
  from i n show "filter isinstance_SystemMessage (model_input ag st) = [SystemMessage (system_prompt ag)]"
    by simp
  from n show "filter isinstance_SystemMessage (messages st) = []" .
qed

theorem system_message_injected_once_witness:
  "node_entry (stub_agent stub_one_tool) ''What is 2 + 2?'' 2 =
     Some (agent, \<lparr>messages = [HumanMessage ''What is 2 + 2?'',
            AIMessage [] [ToolCall ''add'' [(''a'', ''2''), (''b'', ''2'')] ''call_1''],
            ToolMessage ''Result: 4.0'' ''add'' ''call_1'']\<rparr>)
   \<and> model_input (stub_agent stub_one_tool) \<lparr>messages = [HumanMessage ''What is 2 + 2?'',
            AIMessage [] [ToolCall ''add'' [(''a'', ''2''), (''b'', ''2'')] ''call_1''],
            ToolMessage ''Result: 4.0'' ''add'' ''call_1'']\<rparr> =
       [SystemMessage ''You are a helpful AI assistant.'', HumanMessage ''What is 2 + 2?'',
            AIMessage [] [ToolCall ''add'' [(''a'', ''2''), (''b'', ''2'')] ''call_1''],
            ToolMessage ''Result: 4.0'' ''add'' ''call_1'']"
  using system_message_injected_once [of "stub_agent stub_one_tool" "\<lparr>messages = []\<rparr>",
      THEN conjunct2, rule_format, of "''What is 2 + 2?''" 2, OF stub_one_tool_entry] stub_one_tool_entry
  by (simp add: stub_agent_def)

subsection \<open>The result of invoke\<close>

text \<open>
  C8. \<^verbatim>\<open>invoke(query)\<close> starts the loop from the log holding only the human message with
  the query. When it returns a text, the loop has reached its end at some entry of the
  agent node where the model replied without tool calls; the final log is the log of
  that entry with this last AI message appended, and the text returned is exactly the
  text of that message. Conversely, whenever the model replies without tool calls at
  entry \<open>k\<close> of the run, every step budget above \<open>k\<close> makes \<^verbatim>\<open>invoke\<close> return that
  reply's text: the loop runs to completion and the result does not depend on the budget.
\<close>

theorem invoke_returns_final_answer:
  "(\<forall>answer. invoke limit ag query = Inr answer \<longrightarrow>
      (\<exists>k st. k < limit \<and> node_entry ag query k = Some (agent, st)
         \<and> hd (messages st) = HumanMessage query
         \<and> llm_with_tools ag (model_input ag st) = Inr (answer, [])
         \<and> graph_invoke limit ag \<lparr>messages = [HumanMessage query]\<rparr>
              = Inr (add_messages st [AIMessage answer []])))
   \<and> (\<forall>k st answer. node_entry ag query k = Some (agent, st)
         \<and> llm_with_tools ag (model_input ag st) = Inr (answer, []) \<and> k < limit
       \<longrightarrow> invoke limit ag query = Inr answer)"
  using invoke_answer_origin [of limit ag query] invoke_at_answer [of ag query _ _ _ limit]
  by blast

theorem invoke_returns_final_answer_witness:
  "node_entry (stub_agent stub_one_tool) ''What is 2 + 2?'' 2 =
     Some (agent, \<lparr>messages = [HumanMessage ''What is 2 + 2?'',
            AIMessage [] [ToolCall ''add'' [(''a'', ''2''), (''b'', ''2'')] ''call_1''],
            ToolMessage ''Result: 4.0'' ''add'' ''call_1'']\<rparr>)
   \<and> invoke 3 (stub_agent stub_one_tool) ''What is 2 + 2?'' = Inr ''The answer is 4.''
   \<and> invoke 25 (stub_agent stub_one_tool) ''What is 2 + 2?'' = Inr ''The answer is 4.''"
proof -
  let ?st = "\<lparr>messages = [HumanMessage ''What is 2 + 2?'',
            AIMessage [] [ToolCall ''add'' [(''a'', ''2''), (''b'', ''2'')] ''call_1''],
            ToolMessage ''Result: 4.0'' ''add'' ''call_1'']\<rparr>"
  have l: "llm_with_tools (stub_agent stub_one_tool) (model_input (stub_agent stub_one_tool) ?st)
     = Inr (''The answer is 4.'', [])"
    by (simp add: stub_agent_def stub_one_tool_def model_input_def)
  have "invoke 3 (stub_agent stub_one_tool) ''What is 2 + 2?'' = Inr ''The answer is 4.''"
    using invoke_returns_final_answer [of 3 "stub_agent stub_one_tool" "''What is 2 + 2?''",
        THEN conjunct2, rule_format, of 2 ?st "''The answer is 4.''"] stub_one_tool_entry l
    by simp
  moreover have "invoke 25 (stub_agent stub_one_tool) ''What is 2 + 2?'' = Inr ''The answer is 4.''"
    using invoke_returns_final_answer [of 25 "stub_agent stub_one_tool" "''What is 2 + 2?''",
        THEN conjunct2, rule_format, of 2 ?st "''The answer is 4.''"] stub_one_tool_entry l
    by simp
  ultimately show ?thesis using stub_one_tool_entry by simp
qed

subsection \<open>A model that never stops requesting tools\<close>

text \<open>
  C2, as the code has it. The loop built by \<^verbatim>\<open>_build_graph\<close> has no iteration bound of
  its own and reads no field of \<^verbatim>\<open>AgentConfig\<close>. For a model that requests a tool on
  every reasoning step, the run never reaches the end of the graph: it stops only when
  the step budget of the graph engine is used up, after exactly that many node
  executions (half of them, rounded up, reasoning steps), with the engine's recursion
  error instead of an answer.
\<close>

theorem always_tool_stops_at_engine_limit:
  assumes "\<forall>msgs. \<exists>c tcs. llm_with_tools ag msgs = Inr (c, tcs) \<and> tcs \<noteq> []"
  shows "invoke limit ag query = Inl GraphRecursionError
     \<and> snd (stream limit ag query) = Some GraphRecursionError
     \<and> length (fst (stream limit ag query)) = limit
     \<and> length (filter (\<lambda>s. fst s = ''agent'') (fst (stream limit ag query))) = (limit + 1) div 2"
proof -
  have m: "messages \<lparr>messages = [HumanMessage query]\<rparr> \<noteq> []" by simp
  from graph_run_always_tool [OF _ m, of ag limit agent] assms
  show ?thesis
    by (auto simp: invoke_def graph_invoke_def stream_def graph_stream_def split: prod.splits)
qed

theorem always_tool_stops_at_engine_limit_witness:
  "invoke 7 (stub_agent stub_always_tool) ''What time is it?'' = Inl GraphRecursionError
     \<and> length (fst (stream 7 (stub_agent stub_always_tool) ''What time is it?'')) = 7
     \<and> length (filter (\<lambda>s. fst s = ''agent'') (fst (stream 7 (stub_agent stub_always_tool) ''What time is it?''))) = 4"
  using always_tool_stops_at_engine_limit [OF stub_always, of 7 "''What time is it?''"]
  by simp

text \<open>
  The claim as stated fails. With the default configuration (\<^verbatim>\<open>max_iterations = 5\<close>)
  and the executor's guard at 25 node executions, the always-requesting stub is asked
  13 times, more than \<^verbatim>\<open>max_iterations\<close>; and with \<^verbatim>\<open>recursion_limit\<close> configured to 10
  the run still makes 25 node executions, since the configuration is never read.
\<close>

theorem config_bound_not_enforced_counterexample:
  "\<not> int (length (filter (\<lambda>s. fst s = ''agent'')
            (fst (stream 25 (stub_agent stub_always_tool) ''What time is it?''))))
        \<le> max_iterations AgentConfig_default
   \<and> \<not> int (length (fst (stream 25 (stub_agent stub_always_tool) ''What time is it?'')))
        \<le> recursion_limit (AgentConfig_default\<lparr>recursion_limit := 10\<rparr>)
   \<and> invoke 25 (stub_agent stub_always_tool) ''What time is it?'' = Inl GraphRecursionError"
proof -
  have m: "messages \<lparr>messages = [HumanMessage ''What time is it?'']\<rparr> \<noteq> []" by simp
  have a: "\<And>msgs. \<exists>c tcs. llm_with_tools (stub_agent stub_always_tool) msgs = Inr (c, tcs) \<and> tcs \<noteq> []"
    using stub_always by blast
  from graph_run_always_tool [OF a m, of 25 agent]
  show ?thesis
    by (auto simp: stream_def graph_stream_def invoke_def graph_invoke_def AgentConfig_default_def
        split: prod.splits)
qed

section \<open>Properties of the tools\<close>

text \<open>Occurrence of a text in a text (Python's \<^verbatim>\<open>in\<close>) is \<open>sublist\<close>.\<close>

lemma sublist_mid: "sublist xs (ps @ xs @ ss)"
  by (auto simp: sublist_def)

lemma sublist_concat_map:
  "x \<in> set xs \<Longrightarrow> sublist (f x) (concat (map f xs))"
proof (induction xs)
  case Nil
  then show ?case by simp
next
  case (Cons a xs)
  show ?case
  proof (cases "x = a")
    case True
    have "concat (map f (a # xs)) = [] @ f a @ concat (map f xs)" by simp
    with True show ?thesis by (simp only: sublist_mid)
  next
    case False
    with Cons have "sublist (f x) (concat (map f xs))" by simp
    then obtain ps ss where "concat (map f xs) = ps @ f x @ ss" by (auto simp: sublist_def)
    then have "concat (map f (a # xs)) = (f a @ ps) @ f x @ ss" by simp
    then show ?thesis by (simp only: sublist_mid)
  qed
qed

lemma enumerate_nth_mem:
  "i < length xs \<Longrightarrow> (n + i, xs ! i) \<in> set (enumerate n xs)"
  by (metis in_set_conv_nth length_enumerate nth_enumerate_eq)

subsection \<open>The weather tool\<close>

lemma round_half_even_near:
  assumes "0 < den"
  shows "2 * \<bar>den * round_half_even n den - n\<bar> \<le> den"
proof -
  have e: "n = den * (n div den) + n mod den" by simp
  have m: "0 \<le> n mod den" "n mod den < den" using assms by simp_all
  define q where "q = n div den"
  define r where "r = n mod den"
  have n: "n = den * q + r" using e by (simp add: q_def r_def)
  have r: "0 \<le> r" "r < den" using m by (simp_all add: r_def)
  have "round_half_even n den = (if 2 * r < den then q else if den < 2 * r then q + 1 else if even q then q else q + 1)"
    by (simp add: round_half_even_def q_def r_def Let_def)
  moreover have "den * (q + 1) - n = den - r" using n by (simp add: algebra_simps)
  moreover have "den * q - n = - r" using n by simp
  ultimately show ?thesis using r by (auto simp: abs_if)
qed

lemma round_half_even_nonneg: "0 < den \<Longrightarrow> 0 \<le> n \<Longrightarrow> 0 \<le> round_half_even n den"
  by (auto simp: round_half_even_def Let_def pos_imp_zdiv_nonneg_iff intro: add_nonneg_nonneg)

lemma format_1f_nearest_tenth:
  assumes "0 \<le> num"
  shows "\<exists>t. 0 \<le> t \<and> format_1f num 9 = str_digits (t div 10) @ ''.'' @ str_digits (t mod 10)
            \<and> 2 * \<bar>9 * t - 10 * num\<bar> \<le> 9"
proof -
  let ?t = "round_half_even (10 * \<bar>num\<bar>) 9"
  have a: "\<bar>num\<bar> = num" using assms by simp
  have "0 \<le> ?t" using assms by (intro round_half_even_nonneg) simp_all
  moreover have "format_1f num 9 = str_digits (?t div 10) @ ''.'' @ str_digits (?t mod 10)"
    using assms by (simp add: format_1f_def Let_def)
  moreover have "2 * \<bar>9 * ?t - 10 * num\<bar> \<le> 9"
    using round_half_even_near [of 9 "10 * num"] a by simp
  ultimately show ?thesis by blast
qed

lemma weather_data_temp: "(k, data) \<in> set weather_data \<Longrightarrow> 32 \<le> temp data"
  by (auto simp: weather_data_def)

lemma map_of_weather_data:
  "(k, data) \<in> set weather_data \<Longrightarrow> map_of weather_data k = Some data"
  by (rule map_of_is_SomeI) (simp_all add: weather_data_def)

lemma weather_cities: "str_join '', '' (map fst weather_data) = ''new york, london, tokyo, sydney, paris, mumbai''"
  by (simp add: weather_data_def)

lemma get_weather_tokyo:
  "get_weather ''tokyo'' = ''Weather in Tokyo:\<newline>- Temperature: 55'' @ degree @ ''F (12.8'' @ degree @ ''C)\<newline>- Condition: Clear\<newline>- Humidity: 55%''"
  by code_simp

lemma lower_TOKYO: "str_lower ''ToKyO'' = ''tokyo''"
  by code_simp

lemma lower_atlantis: "str_lower ''Atlantis'' = ''atlantis''"
  by code_simp

text \<open>
  C5. \<^verbatim>\<open>get_weather\<close> looks the lowercased city up in the table of six cities. When
  the lowercased city is a key of the table with entry \<open>data\<close>, the text returned is the
  formatted report, which contains the entry's temperature followed by the degree sign
  and F, and the Celsius value followed by the degree sign and C, where the Celsius
  value is the number with one decimal digit nearest to (F - 32) * 5 / 9 (it is
  \<open>t / 10\<close> with \<open>t\<close> at most one twentieth away). When the lowercased city is no key,
  the text returned (nothing is raised: the function is total) is the error text
  listing the six cities. For \<^verbatim>\<open>tokyo\<close> the text contains 55 degrees F and 12.8 degrees C.
\<close>

theorem get_weather_lookup:
  "((str_lower city, data) \<in> set weather_data \<longrightarrow>
       get_weather city =
          ''Weather in '' @ str_title city @ '':\<newline>''
          @ ''- Temperature: '' @ str_int (temp data) @ degree @ ''F (''
          @ format_1f ((temp data - 32) * 5) 9 @ degree @ ''C)\<newline>''
          @ ''- Condition: '' @ condition data @ ''\<newline>''
          @ ''- Humidity: '' @ str_int (humidity data) @ ''%''
     \<and> sublist (str_int (temp data) @ degree @ ''F'') (get_weather city)
     \<and> sublist (format_1f ((temp data - 32) * 5) 9 @ degree @ ''C'') (get_weather city)
     \<and> (\<exists>t. 0 \<le> t
           \<and> format_1f ((temp data - 32) * 5) 9 = str_digits (t div 10) @ ''.'' @ str_digits (t mod 10)
           \<and> 2 * \<bar>9 * t - 50 * (temp data - 32)\<bar> \<le> 9))
   \<and> (str_lower city \<notin> fst ` set weather_data \<longrightarrow>
       get_weather city =
          ''Weather data not available for '' @ apostrophe @ city @ apostrophe
          @ ''. Available cities: new york, london, tokyo, sydney, paris, mumbai'')
   \<and> sublist (''55'' @ degree @ ''F'') (get_weather ''tokyo'')
   \<and> sublist (''12.8'' @ degree @ ''C'') (get_weather ''tokyo'')"
proof (intro conjI impI)
  assume d: "(str_lower city, data) \<in> set weather_data"
  from map_of_weather_data [OF d]
  show g: "get_weather city =
          ''Weather in '' @ str_title city @ '':\<newline>''
          @ ''- Temperature: '' @ str_int (temp data) @ degree @ ''F (''
          @ format_1f ((temp data - 32) * 5) 9 @ degree @ ''C)\<newline>''
          @ ''- Condition: '' @ condition data @ ''\<newline>''
          @ ''- Humidity: '' @ str_int (humidity data) @ ''%''"
    by (simp add: get_weather_def Let_def)
  have "get_weather city = (''Weather in '' @ str_title city @ '':\<newline>- Temperature: '')
      @ (str_int (temp data) @ degree @ ''F'')
      @ ('' ('' @ format_1f ((temp data - 32) * 5) 9 @ degree @ ''C)\<newline>''
          @ ''- Condition: '' @ condition data @ ''\<newline>''
          @ ''- Humidity: '' @ str_int (humidity data) @ ''%'')"
    unfolding g by simp
  then show "sublist (str_int (temp data) @ degree @ ''F'') (get_weather city)"
    by (simp only: sublist_mid)
  have "get_weather city = (''Weather in '' @ str_title city @ '':\<newline>- Temperature: ''
       @ str_int (temp data) @ degree @ ''F ('')
      @ (format_1f ((temp data - 32) * 5) 9 @ degree @ ''C'')
      @ ('')\<newline>'' @ ''- Condition: '' @ condition data @ ''\<newline>''
          @ ''- Humidity: '' @ str_int (humidity data) @ ''%'')"
    unfolding g by simp
  then show "sublist (format_1f ((temp data - 32) * 5) 9 @ degree @ ''C'') (get_weather city)"
    by (simp only: sublist_mid)
  from weather_data_temp [OF d] have "0 \<le> (temp data - 32) * 5" by simp
  from format_1f_nearest_tenth [OF this]
  show "\<exists>t. 0 \<le> t
           \<and> format_1f ((temp data - 32) * 5) 9 = str_digits (t div 10) @ ''.'' @ str_digits (t mod 10)
           \<and> 2 * \<bar>9 * t - 50 * (temp data - 32)\<bar> \<le> 9"
    by (simp add: algebra_simps)
next
  assume "str_lower city \<notin> fst ` set weather_data"
  then have "map_of weather_data (str_lower city) = None"
    by (simp add: map_of_eq_None_iff)
  then show "get_weather city =
          ''Weather data not available for '' @ apostrophe @ city @ apostrophe
          @ ''. Available cities: new york, london, tokyo, sydney, paris, mumbai''"
    by (simp add: get_weather_def Let_def weather_cities)
next
  have "get_weather ''tokyo'' = ''Weather in Tokyo:\<newline>- Temperature: '' @ (''55'' @ degree @ ''F'')
     @ '' (12.8'' @ degree @ ''C)\<newline>- Condition: Clear\<newline>- Humidity: 55%''"
    unfolding get_weather_tokyo by simp
  then show "sublist (''55'' @ degree @ ''F'') (get_weather ''tokyo'')"
    by (simp only: sublist_mid)
  have "get_weather ''tokyo'' = (''Weather in Tokyo:\<newline>- Temperature: 55'' @ degree @ ''F ('') @ (''12.8'' @ degree @ ''C'')
     @ '')\<newline>- Condition: Clear\<newline>- Humidity: 55%''"
    unfolding get_weather_tokyo by simp
  then show "sublist (''12.8'' @ degree @ ''C'') (get_weather ''tokyo'')"
    by (simp only: sublist_mid)
qed

theorem get_weather_lookup_witness:
  "sublist (''55'' @ degree @ ''F'') (get_weather ''ToKyO'')
   \<and> sublist (''12.8'' @ degree @ ''C'') (get_weather ''ToKyO'')
   \<and> get_weather ''Atlantis'' = ''Weather data not available for 'Atlantis'. Available cities: new york, london, tokyo, sydney, paris, mumbai''"
proof -
  have d: "(str_lower ''ToKyO'', \<lparr>temp = 55, condition = ''Clear'', humidity = 55\<rparr>) \<in> set weather_data"
    unfolding lower_TOKYO by (simp add: weather_data_def)
  have f: "format_1f 115 9 = ''12.8''" by code_simp
  have s: "str_int 55 = ''55''" by code_simp
  have n: "str_lower ''Atlantis'' \<notin> fst ` set weather_data"
    unfolding lower_atlantis by (simp add: weather_data_def)
  note th = get_weather_lookup [of "''ToKyO''" "\<lparr>temp = 55, condition = ''Clear'', humidity = 55\<rparr>",
      THEN conjunct1, rule_format, OF d]
  have a: "sublist (str_int 55 @ degree @ ''F'') (get_weather ''ToKyO'')"
    using th [THEN conjunct2, THEN conjunct1] by simp
  have b: "sublist (format_1f 115 9 @ degree @ ''C'') (get_weather ''ToKyO'')"
    using th [THEN conjunct2, THEN conjunct2, THEN conjunct1] by simp
  have c: "get_weather ''Atlantis'' =
          ''Weather data not available for '' @ apostrophe @ ''Atlantis'' @ apostrophe
          @ ''. Available cities: new york, london, tokyo, sydney, paris, mumbai''"
    using get_weather_lookup [of "''Atlantis''" "\<lparr>temp = 55, condition = ''Clear'', humidity = 55\<rparr>", THEN conjunct2, THEN conjunct1, rule_format, OF n] .
  from a b c show ?thesis unfolding f s by (simp add: apostrophe_def)
qed

subsection \<open>The search tool\<close>

lemma str_int_1: "str_int 1 = ''1''"
  by code_simp

lemma str_int_2: "str_int 2 = ''2''"
  by code_simp

lemma sublist_format_result:
  "sublist (str_int (int i) @ ''. **'' @ doc_title d @ ''**'') (format_result (i, d))"
proof -
  have "format_result (i, d) = [] @ (str_int (int i) @ ''. **'' @ doc_title d @ ''**'')
     @ (''\<newline>   '' @ doc_content d @ ''\<newline>   Source: '' @ doc_url d @ ''\<newline>\<newline>'')"
    by (simp add: format_result_def)
  then show ?thesis by (simp only: sublist_mid)
qed

lemma lower_LangGraph: "str_lower ''LangGraph'' = ''langgraph''"
  by code_simp

lemma lower_no_match: "str_lower ''zzz_no_match'' = ''zzz_no_match''"
  by code_simp

lemma lower_two:
  "str_lower ''Tell me about PYTHON and the Gemini API'' = ''tell me about python and the gemini api''"
  by code_simp

lemma search_results_iff:
  "d \<in> set (search_results today query) \<longleftrightarrow>
     (\<exists>key. (key, d) \<in> set (KNOWLEDGE_BASE today)
        \<and> (sublist key (str_lower query) \<or> (\<exists>word \<in> set (str_split key). sublist word (str_lower query))))"
  by (force simp: search_results_def key_matches_def list_ex_iff)

lemma search_LangGraph:
  "search_results today ''LangGraph'' = [snd (hd (KNOWLEDGE_BASE today))]"
  by (simp add: search_results_def lower_LangGraph KNOWLEDGE_BASE_def key_matches_def
      str_split_def is_space_def sublist_code)

lemma search_no_match:
  "search_results today ''zzz_no_match'' = []"
  by (simp add: search_results_def lower_no_match KNOWLEDGE_BASE_def key_matches_def
      str_split_def is_space_def sublist_code)

lemma search_two:
  "search_results ''2024-01-01'' ''Tell me about PYTHON and the Gemini API'' =
     [snd (KNOWLEDGE_BASE ''2024-01-01'' ! 2), snd (KNOWLEDGE_BASE ''2024-01-01'' ! 4)]"
  by (simp add: search_results_def lower_two KNOWLEDGE_BASE_def key_matches_def
      str_split_def is_space_def sublist_code)

text \<open>
  C6. \<^verbatim>\<open>web_search\<close> lowercases the query; a record matches when its key, or one of the
  words of its key, occurs in the lowercased query, so the match ignores the case of
  the query. The results are exactly the matching records, in the order of the
  knowledge base. When there are results, the text returned is the header followed by
  the numbered entries, and entry number \<open>i + 1\<close> carries the title of result \<open>i\<close>;
  the query \<^verbatim>\<open>LangGraph\<close> gives the title of the LangGraph record as entry 1. When
  nothing matches, the fallback text with the tip of topics to try is returned.
\<close>

theorem web_search_results:
  "(\<forall>d. d \<in> set (search_results today query) \<longleftrightarrow>
       (\<exists>key. (key, d) \<in> set (KNOWLEDGE_BASE today)
          \<and> (sublist key (str_lower query)
               \<or> (\<exists>word \<in> set (str_split key). sublist word (str_lower query)))))
   \<and> (search_results today query \<noteq> [] \<longrightarrow>
         web_search today query =
           ''Search results for '' @ apostrophe @ query @ apostrophe @ '':\<newline>\<newline>''
           @ concat (map format_result (enumerate 1 (search_results today query)))
       \<and> (\<forall>i < length (search_results today query).
             sublist (str_int (int (i + 1)) @ ''. **'' @ doc_title (search_results today query ! i) @ ''**'')
                     (web_search today query)))
   \<and> (search_results today query = [] \<longrightarrow>
         web_search today query =
           ''Search results for '' @ apostrophe @ query @ apostrophe @ '':\<newline>''
           @ ''No specific results found in demo knowledge base.\<newline>''
           @ ''In production, this would return real web search results.\<newline>''
           @ ''Tip: Try searching for 'LangGraph', 'ReAct agent', 'Gemini API', or 'Python'.'')
   \<and> (\<forall>query'. str_lower query' = str_lower query \<longrightarrow>
         search_results today query' = search_results today query)
   \<and> sublist ''1. **LangGraph - Build Stateful AI Agents**'' (web_search today ''LangGraph'')
   \<and> sublist ''No specific results found'' (web_search today ''zzz_no_match'')"
proof (intro conjI allI impI)
  fix d
  show "d \<in> set (search_results today query) \<longleftrightarrow>
       (\<exists>key. (key, d) \<in> set (KNOWLEDGE_BASE today)
          \<and> (sublist key (str_lower query)
               \<or> (\<exists>word \<in> set (str_split key). sublist word (str_lower query))))"
    by (rule search_results_iff)
next
  assume ne: "search_results today query \<noteq> []"
  then show w: "web_search today query =
           ''Search results for '' @ apostrophe @ query @ apostrophe @ '':\<newline>\<newline>''
           @ concat (map format_result (enumerate 1 (search_results today query)))"
    by (simp add: web_search_def Let_def)
  fix i assume i: "i < length (search_results today query)"
  let ?rs = "search_results today query"
  from enumerate_nth_mem [OF i, of 1]
  have "sublist (format_result (1 + i, ?rs ! i)) (concat (map format_result (enumerate 1 ?rs)))"
    by (rule sublist_concat_map)
  then have "sublist (format_result (1 + i, ?rs ! i))
       ((''Search results for '' @ apostrophe @ query @ apostrophe @ '':\<newline>\<newline>'')
        @ concat (map format_result (enumerate 1 ?rs)))"
    by (rule sublist_order.order_trans) (rule sublist_append_leftI)
  then have "sublist (format_result (1 + i, ?rs ! i)) (web_search today query)"
    unfolding w by simp
  with sublist_format_result [of "1 + i" "?rs ! i"]
  have "sublist (str_int (int (1 + i)) @ ''. **'' @ doc_title (?rs ! i) @ ''**'') (web_search today query)"
    by (rule sublist_order.order_trans)
  then show "sublist (str_int (int (i + 1)) @ ''. **'' @ doc_title (?rs ! i) @ ''**'') (web_search today query)"
    by (simp only: add.commute [of i 1])
next
  assume "search_results today query = []"
  then show "web_search today query =
           ''Search results for '' @ apostrophe @ query @ apostrophe @ '':\<newline>''
           @ ''No specific results found in demo knowledge base.\<newline>''
           @ ''In production, this would return real web search results.\<newline>''
           @ ''Tip: Try searching for 'LangGraph', 'ReAct agent', 'Gemini API', or 'Python'.''"
    by (simp add: web_search_def Let_def)
next
  fix query' assume "str_lower query' = str_lower query"
  then show "search_results today query' = search_results today query"
    by (simp add: search_results_def)
next
  have "web_search today ''LangGraph'' = (''Search results for '' @ apostrophe @ ''LangGraph'' @ apostrophe @ '':\<newline>\<newline>'')
      @ ''1. **LangGraph - Build Stateful AI Agents**''
      @ (''\<newline>   '' @ doc_content (snd (hd (KNOWLEDGE_BASE today))) @ ''\<newline>   Source: ''
          @ doc_url (snd (hd (KNOWLEDGE_BASE today))) @ ''\<newline>\<newline>'')"
    by (simp add: web_search_def search_LangGraph format_result_def Let_def enumerate_eq_zip)
       (simp add: KNOWLEDGE_BASE_def str_int_1)
  then show "sublist ''1. **LangGraph - Build Stateful AI Agents**'' (web_search today ''LangGraph'')"
    by (simp only: sublist_mid)
next
  have "web_search today ''zzz_no_match'' = (''Search results for '' @ apostrophe @ ''zzz_no_match'' @ apostrophe @ '':\<newline>'')
           @ ''No specific results found''
           @ ('' in demo knowledge base.\<newline>''
           @ ''In production, this would return real web search results.\<newline>''
           @ ''Tip: Try searching for 'LangGraph', 'ReAct agent', 'Gemini API', or 'Python'.'')"
    by (simp add: web_search_def search_no_match)
  then show "sublist ''No specific results found'' (web_search today ''zzz_no_match'')"
    by (simp only: sublist_mid)
qed

theorem web_search_results_witness:
  "sublist ''1. **Google Gemini API Documentation**''
     (web_search ''2024-01-01'' ''Tell me about PYTHON and the Gemini API'')
   \<and> sublist ''2. **Python Programming Language**''
     (web_search ''2024-01-01'' ''Tell me about PYTHON and the Gemini API'')"
proof -
  let ?q = "''Tell me about PYTHON and the Gemini API''"
  have ne: "search_results ''2024-01-01'' ?q \<noteq> []" by (simp add: search_two)
  note th = web_search_results [of "''2024-01-01''" ?q, THEN conjunct2, THEN conjunct1, rule_format,
      OF ne, THEN conjunct2, rule_format]
  have "sublist (str_int (int (0 + 1)) @ ''. **'' @ doc_title (search_results ''2024-01-01'' ?q ! 0) @ ''**'')
     (web_search ''2024-01-01'' ?q)"
    by (rule th) (simp add: search_two)
  moreover have "sublist (str_int (int (1 + 1)) @ ''. **'' @ doc_title (search_results ''2024-01-01'' ?q ! 1) @ ''**'')
     (web_search ''2024-01-01'' ?q)"
    by (rule th) (simp add: search_two)
  ultimately show ?thesis
    by (simp add: search_two KNOWLEDGE_BASE_def str_int_1 str_int_2)
qed

section \<open>Properties of the command-line driver\<close>

lemma run_queries_verbose_prefix:
  "prefix (fst (run_queries limit ag True qs)) (map CallStream qs)"
  by (induction qs) (auto simp: demo_query_def split: option.splits prod.splits)

lemma run_queries_verbose:
  "\<forall>q \<in> set qs. snd (stream limit ag q) = None \<Longrightarrow>
     run_queries limit ag True qs = (map CallStream qs, None)"
  by (induction qs) (auto simp: demo_query_def split: option.splits prod.splits)

lemma run_queries_quiet:
  "\<forall>q \<in> set qs. \<exists>r. invoke limit ag q = Inr r \<Longrightarrow>
     run_queries limit ag False qs = (concat (map (\<lambda>q. [CallInvoke q, CallInvoke q]) qs), None)"
  by (induction qs) (auto simp: demo_query_def split: sum.splits prod.splits)

lemma stub_one_tool_stream:
  "snd (stream (3 + n) (stub_agent stub_one_tool) q) = None"
  by (simp add: stream_def graph_stream_def numeral_3_eq_3 stub_agent_def stub_one_tool_def
      agent_node_def model_input_def should_continue_def add_messages_def conditional_edges_def
      ToolNode_def run_tool_def)

lemma stub_one_tool_invoke:
  "invoke (3 + n) (stub_agent stub_one_tool) q = Inr ''The answer is 4.''"
  by (simp add: invoke_def graph_invoke_def numeral_3_eq_3 stub_agent_def stub_one_tool_def
      agent_node_def model_input_def should_continue_def add_messages_def conditional_edges_def
      ToolNode_def run_tool_def)

text \<open>
  C9, as the code has it. The agent is run twice for a query, once through
  \<^verbatim>\<open>stream\<close> and then again through \<^verbatim>\<open>invoke\<close>, in single-query mode
  (\<^verbatim>\<open>run_single_query\<close>) when the verbose flag is true. In demo mode with the verbose
  flag true each query is run once, through \<^verbatim>\<open>stream\<close> only: the calls made are a
  prefix of one \<^verbatim>\<open>stream\<close> call per demo query, and all of them when no call
  raises. In demo mode with the verbose flag false each query is run twice through
  \<^verbatim>\<open>invoke\<close>.
\<close>

theorem agent_runs_per_query:
  "fst (run_single_query limit ag query True) =
      (if snd (stream limit ag query) = None then [CallStream query, CallInvoke query]
       else [CallStream query])
   \<and> prefix (fst (run_demo_queries limit ag True)) (map CallStream demo_queries)
   \<and> ((\<forall>q \<in> set demo_queries. snd (stream limit ag q) = None) \<longrightarrow>
        fst (run_demo_queries limit ag True) = map CallStream demo_queries)
   \<and> ((\<forall>q \<in> set demo_queries. \<exists>r. invoke limit ag q = Inr r) \<longrightarrow>
        fst (run_demo_queries limit ag False)
          = concat (map (\<lambda>q. [CallInvoke q, CallInvoke q]) demo_queries))"
  by (auto simp: run_single_query_def run_demo_queries_def run_queries_verbose_prefix
      run_queries_verbose run_queries_quiet split: option.splits)

theorem agent_runs_per_query_witness:
  "fst (run_single_query 25 (stub_agent stub_one_tool) ''What is 2 + 2?'' True)
      = [CallStream ''What is 2 + 2?'', CallInvoke ''What is 2 + 2?'']
   \<and> fst (run_demo_queries 25 (stub_agent stub_one_tool) True) = map CallStream demo_queries
   \<and> fst (run_demo_queries 25 (stub_agent stub_one_tool) False)
      = concat (map (\<lambda>q. [CallInvoke q, CallInvoke q]) demo_queries)"
proof -
  have s: "snd (stream 25 (stub_agent stub_one_tool) q) = None" for q
    using stub_one_tool_stream [of 22 q] by simp
  have i: "invoke 25 (stub_agent stub_one_tool) q = Inr ''The answer is 4.''" for q
    using stub_one_tool_invoke [of 22 q] by simp
  note th = agent_runs_per_query [of 25 "stub_agent stub_one_tool" "''What is 2 + 2?''"]
  have "fst (run_single_query 25 (stub_agent stub_one_tool) ''What is 2 + 2?'' True)
      = [CallStream ''What is 2 + 2?'', CallInvoke ''What is 2 + 2?'']"
    using th [THEN conjunct1] s by simp
  moreover have "fst (run_demo_queries 25 (stub_agent stub_one_tool) True) = map CallStream demo_queries"
    by (rule th [THEN conjunct2, THEN conjunct2, THEN conjunct1, rule_format]) (simp add: s)
  moreover have "fst (run_demo_queries 25 (stub_agent stub_one_tool) False)
      = concat (map (\<lambda>q. [CallInvoke q, CallInvoke q]) demo_queries)"
    by (rule th [THEN conjunct2, THEN conjunct2, THEN conjunct2, rule_format]) (simp add: i)
  ultimately show ?thesis by simp
qed

text \<open>
  The claim as stated fails: in demo mode with the verbose flag true, the calls made
  for the five demo queries are five \<^verbatim>\<open>stream\<close> calls and no \<^verbatim>\<open>invoke\<close> call.
\<close>

theorem demo_verbose_streams_only_counterexample:
  "fst (run_demo_queries 25 (stub_agent stub_one_tool) True) =
    [CallStream ''What is 25 multiplied by 4, then add 50?'',
     CallStream ''What is LangGraph and how does it work?'',
     CallStream ''What is the current date and time?'',
     CallStream ''What's the weather like in Tokyo?'',
     CallStream ''If I have 3 apples costing $2 each and 5 oranges costing $1.50 each, what's my total cost?'']"
proof -
  have "snd (stream 25 (stub_agent stub_one_tool) q) = None" for q
    using stub_one_tool_stream [of 22 q] by simp
  then have "run_queries 25 (stub_agent stub_one_tool) True demo_queries = (map CallStream demo_queries, None)"
    by (intro run_queries_verbose) simp
  then show ?thesis by (simp add: run_demo_queries_def demo_queries_def)
qed

section \<open>Properties of the calculator\<close>












subsection \<open>Names outside the allow-list\<close>




subsection \<open>Exceptions and the tool boundary\<close>




end
